theory Spec2Isabelle
  imports Complex_Main "HOL-Library.AList"
begin

section \<open>Values thrown by operations and handlers\<close>

text \<open>
  A JavaScript \<open>catch\<close> receives any value. The library distinguishes three shapes:
  an \<open>AnyQError\<close> (or a subclass) carrying its \<open>retryable\<close> flag, any other
  \<open>Error\<close> with a name and a message, and a value that is not an \<open>Error\<close> at all
  (kept as the text \<open>String(value)\<close> yields).
\<close>

datatype thrown =
    AnyQError (errName: string) (errCode: string) (errRetryable: bool) (errMessage: string)
  | PlainError (errName: string) (errMessage: string)
  | NonError string

text \<open>\<open>error instanceof Error ? error : new Error(String(error))\<close>\<close>

fun toError :: "thrown \<Rightarrow> thrown" where
  "toError (NonError s) = PlainError ''Error'' s"
| "toError e = e"

fun message_of :: "thrown \<Rightarrow> string" where
  "message_of (AnyQError n c r m) = m"
| "message_of (PlainError n m) = m"
| "message_of (NonError s) = s"

fun name_of :: "thrown \<Rightarrow> string" where
  "name_of (AnyQError n c r m) = n"
| "name_of (PlainError n m) = n"
| "name_of (NonError s) = []"

definition ConnectionError :: "string \<Rightarrow> thrown" where
  "ConnectionError m = AnyQError ''ConnectionError'' ''CONNECTION_ERROR'' True m"

definition PublishError :: "string \<Rightarrow> thrown" where
  "PublishError m = AnyQError ''PublishError'' ''PUBLISH_ERROR'' True m"

definition SerializationError :: "string \<Rightarrow> thrown" where
  "SerializationError m = AnyQError ''SerializationError'' ''SERIALIZATION_ERROR'' False m"

definition CircuitOpenError :: thrown where
  "CircuitOpenError = AnyQError ''CircuitOpenError'' ''CIRCUIT_OPEN'' False ''Circuit breaker is open''"

section \<open>The in-memory queue (\<open>MemoryQueue\<close>)\<close>

text \<open>
  Times are milliseconds since the epoch (\<open>Date.now()\<close>, \<open>Date.getTime()\<close>). Header values
  are kept as strings. The in-flight \<open>Map\<close> is an association list with unique keys:
  \<open>AList.update\<close> is \<open>Map.set\<close>, \<open>AList.delete\<close> is \<open>Map.delete\<close>, \<open>map_of\<close> is \<open>Map.get\<close>.
\<close>

type_synonym MessageHeaders = "(string \<times> string) list"

record 'b StoredMessage =
  msgId :: string
  body :: 'b
  key :: "string option"
  headers :: MessageHeaders
  timestamp :: int
  deliveryAttempt :: nat
  acknowledged :: bool
  requeued :: bool
  deadLettered :: bool

record 'b MemoryQueue =
  messages :: "'b StoredMessage list"
  processing :: "(string \<times> 'b StoredMessage) list"
  queueName :: string
  maxMessages :: int
  maxAgeMs :: int

text \<open>The constructor: \<open>options.maxMessages ?? 0\<close>, \<open>options.maxAgeMs ?? 0\<close>.\<close>

definition newMemoryQueue :: "string \<Rightarrow> int option \<Rightarrow> int option \<Rightarrow> 'b MemoryQueue" where
  "newMemoryQueue name maxMessagesOpt maxAgeMsOpt =
     \<lparr> messages = [], processing = [], queueName = name,
       maxMessages = (case maxMessagesOpt of None \<Rightarrow> 0 | Some k \<Rightarrow> k),
       maxAgeMs = (case maxAgeMsOpt of None \<Rightarrow> 0 | Some a \<Rightarrow> a) \<rparr>"

text \<open>\<open>cleanup\<close>: nothing when \<open>maxAgeMs <= 0\<close>, else keep the messages younger than \<open>maxAgeMs\<close>.\<close>

definition cleanup :: "int \<Rightarrow> 'b MemoryQueue \<Rightarrow> 'b MemoryQueue" where
  "cleanup now q =
     (if maxAgeMs q \<le> 0 then q
      else q\<lparr> messages := filter (\<lambda>msg. now - timestamp msg < maxAgeMs q) (messages q) \<rparr>)"

text \<open>
  \<open>enqueue\<close>: the identifier produced by \<open>generateMessageId()\<close> and the clock reading are
  inputs. \<open>push\<close> appends at the tail; \<open>shift\<close> drops the head when the limit is exceeded.
\<close>

definition enqueue ::
  "int \<Rightarrow> string \<Rightarrow> 'b \<Rightarrow> string option \<Rightarrow> MessageHeaders option \<Rightarrow> 'b MemoryQueue
     \<Rightarrow> string \<times> 'b MemoryQueue" where
  "enqueue now newId b k hs q =
     (let q1 = cleanup now q;
          message = \<lparr> msgId = newId, body = b, key = k,
                      headers = (case hs of None \<Rightarrow> [] | Some h \<Rightarrow> h),
                      timestamp = now, deliveryAttempt = 0,
                      acknowledged = False, requeued = False, deadLettered = False \<rparr>;
          pushed = messages q1 @ [message];
          kept = (if maxMessages q1 > 0 \<and> int (length pushed) > maxMessages q1
                  then tl pushed else pushed)
      in (newId, q1\<lparr> messages := kept \<rparr>))"

text \<open>\<open>dequeue\<close>: \<open>shift\<close> the head, increment its \<open>deliveryAttempt\<close>, record it as in flight.\<close>

definition dequeue :: "int \<Rightarrow> 'b MemoryQueue \<Rightarrow> 'b StoredMessage option \<times> 'b MemoryQueue" where
  "dequeue now q =
     (let q1 = cleanup now q
      in case messages q1 of
           [] \<Rightarrow> (None, q1)
         | m # rest \<Rightarrow>
             (let message = m\<lparr> deliveryAttempt := deliveryAttempt m + 1 \<rparr>
              in (Some message,
                  q1\<lparr> messages := rest,
                      processing := AList.update (msgId message) message (processing q1) \<rparr>)))"

definition ack :: "string \<Rightarrow> 'b MemoryQueue \<Rightarrow> bool \<times> 'b MemoryQueue" where
  "ack messageId q =
     (case map_of (processing q) messageId of
        None \<Rightarrow> (False, q)
      | Some message \<Rightarrow> (True, q\<lparr> processing := AList.delete messageId (processing q) \<rparr>))"

definition nack :: "string \<Rightarrow> bool \<Rightarrow> 'b MemoryQueue \<Rightarrow> bool \<times> 'b MemoryQueue" where
  "nack messageId requeue q =
     (case map_of (processing q) messageId of
        None \<Rightarrow> (False, q)
      | Some message \<Rightarrow>
          (let q1 = q\<lparr> processing := AList.delete messageId (processing q) \<rparr>
           in if requeue
              then (True, q1\<lparr> messages := message\<lparr> requeued := True \<rparr> # messages q1 \<rparr>)
              else (True, q1)))"

definition size_q :: "'b MemoryQueue \<Rightarrow> nat" where
  "size_q q = length (messages q)"

definition processingCount :: "'b MemoryQueue \<Rightarrow> nat" where
  "processingCount q = length (processing q)"

definition isEmpty :: "'b MemoryQueue \<Rightarrow> bool" where
  "isEmpty q = (length (messages q) = 0)"

definition peek :: "'b MemoryQueue \<Rightarrow> 'b StoredMessage option" where
  "peek q = (case messages q of [] \<Rightarrow> None | m # _ \<Rightarrow> Some m)"

text \<open>
  A run of \<open>enqueue\<close> calls, one per element of the list: each element gives the clock
  reading, the generated identifier and the body of one call (no key, no headers).
\<close>

fun enqueueAll :: "(int \<times> string \<times> 'b) list \<Rightarrow> 'b MemoryQueue \<Rightarrow> 'b MemoryQueue" where
  "enqueueAll [] q = q"
| "enqueueAll ((now, newId, b) # rest) q = enqueueAll rest (snd (enqueue now newId b None None q))"

section \<open>Dead-lettering and the in-memory consumer (\<open>MemoryConsumer\<close>)\<close>

text \<open>
  Queues are objects shared by reference: the registry, producers and consumers hold the
  same instance, and a consumer's dead-letter queue may be the very queue it reads. The
  heap maps the address of each \<open>MemoryQueue\<close> instance to its state.
\<close>

type_synonym addr = nat
type_synonym 'b heap = "addr \<Rightarrow> 'b MemoryQueue"

text \<open>\<open>String(n)\<close> for a non-negative integer: its decimal digits.\<close>

fun string_of_nat :: "nat \<Rightarrow> string" where
  "string_of_nat n =
     (if n < 10 then [''0123456789'' ! n]
      else string_of_nat (n div 10) @ [''0123456789'' ! (n mod 10)])"

declare string_of_nat.simps [simp del]


record MemoryConsumer =
  queue :: "addr option"
  dlq :: "addr option"
  consumerQueueName :: string
  maxDeliveryAttempts :: int
  running :: bool
  paused :: bool
  connected :: bool



text \<open>
  The envelope's closures: \<open>onAck\<close> is \<open>this.queue?.ack(stored.id)\<close> and \<open>onNack\<close> is
  \<open>this.queue?.nack(stored.id, requeue)\<close> with \<open>requeue\<close> defaulting to \<open>true\<close>. Neither
  throws; the boolean of the queue operation is dropped.
\<close>

definition message_ack :: "MemoryConsumer \<Rightarrow> string \<Rightarrow> 'b heap \<Rightarrow> 'b heap" where
  "message_ack c storedId hp =
     (case queue c of None \<Rightarrow> hp | Some a \<Rightarrow> hp(a := snd (ack storedId (hp a))))"

definition message_nack :: "MemoryConsumer \<Rightarrow> string \<Rightarrow> bool option \<Rightarrow> 'b heap \<Rightarrow> 'b heap" where
  "message_nack c storedId requeue hp =
     (case queue c of
        None \<Rightarrow> hp
      | Some a \<Rightarrow> hp(a := snd (nack storedId (case requeue of None \<Rightarrow> True | Some r \<Rightarrow> r) (hp a))))"

text \<open>
  A handler is run to completion within one poll. What it does to the queue is the list of
  settlement calls it makes on its envelope, in order; it then returns (\<open>None\<close>) or throws.
\<close>

datatype settle = AckCall | NackCall "bool option"


fun settleQueue :: "settle \<Rightarrow> string \<Rightarrow> 'b MemoryQueue \<Rightarrow> bool \<times> 'b MemoryQueue" where
  "settleQueue AckCall storedId q = ack storedId q"
| "settleQueue (NackCall requeue) storedId q =
     nack storedId (case requeue of None \<Rightarrow> True | Some r \<Rightarrow> r) q"

fun message_settle :: "MemoryConsumer \<Rightarrow> string \<Rightarrow> settle \<Rightarrow> 'b heap \<Rightarrow> 'b heap" where
  "message_settle c storedId AckCall hp = message_ack c storedId hp"
| "message_settle c storedId (NackCall requeue) hp = message_nack c storedId requeue hp"





section \<open>The circuit breaker (\<open>CircuitBreaker\<close>)\<close>

text \<open>
  Operations are asynchronous computations with effects. An operation is a function from
  the world before the call to its outcome (\<open>Inl\<close> what it throws, \<open>Inr\<close> what it returns) and
  the world after it. A computation that leaves the world as it found it, whatever the
  operation is, has not invoked the operation. \<open>Date.now()\<close> reads the clock of the world.
\<close>

type_synonym ('a, 'w) operation = "'w \<Rightarrow> (thrown + 'a) \<times> 'w"

datatype CircuitState = Closed | Open | HalfOpen

record CircuitBreakerConfig =
  enabled :: bool
  failureThreshold :: int
  failureWindow :: int
  resetTimeout :: int
  successThreshold :: int

definition DEFAULT_CIRCUIT_BREAKER_CONFIG :: CircuitBreakerConfig where
  "DEFAULT_CIRCUIT_BREAKER_CONFIG =
     \<lparr> enabled = False, failureThreshold = 5, failureWindow = 60000, resetTimeout = 30000,
       successThreshold = 2 \<rparr>"

record CircuitBreaker =
  state :: CircuitState
  failures :: "int list"
  successes :: int
  lastFailureTime :: "int option"
  totalRequests :: int
  totalFailures :: int
  config :: CircuitBreakerConfig

definition newCircuitBreaker :: "CircuitBreakerConfig \<Rightarrow> CircuitBreaker" where
  "newCircuitBreaker cfg =
     \<lparr> state = Closed, failures = [], successes = 0, lastFailureTime = None,
       totalRequests = 0, totalFailures = 0, config = cfg \<rparr>"

definition cleanOldFailures :: "int \<Rightarrow> CircuitBreaker \<Rightarrow> CircuitBreaker" where
  "cleanOldFailures now cb =
     (let cutoff = now - failureWindow (config cb)
      in cb\<lparr> failures := filter (\<lambda>time. time > cutoff) (failures cb) \<rparr>)"

text \<open>\<open>!this.lastFailureTime\<close> holds for \<open>undefined\<close> and for the timestamp 0.\<close>

definition shouldAttemptReset :: "int \<Rightarrow> CircuitBreaker \<Rightarrow> bool" where
  "shouldAttemptReset now cb =
     (case lastFailureTime cb of
        None \<Rightarrow> True
      | Some t \<Rightarrow> if t = 0 then True else now - t \<ge> resetTimeout (config cb))"

definition onSuccess :: "CircuitBreaker \<Rightarrow> CircuitBreaker" where
  "onSuccess cb =
     (if state cb = HalfOpen then
        (let cb1 = cb\<lparr> successes := successes cb + 1 \<rparr>
         in if successes cb1 \<ge> successThreshold (config cb1)
            then cb1\<lparr> state := Closed, failures := [], successes := 0 \<rparr>
            else cb1)
      else if state cb = Closed then cb\<lparr> successes := 0 \<rparr>
      else cb)"

definition onFailure :: "int \<Rightarrow> CircuitBreaker \<Rightarrow> CircuitBreaker" where
  "onFailure now cb =
     (let cb1 = cb\<lparr> failures := failures cb @ [now], lastFailureTime := Some now,
                     totalFailures := totalFailures cb + 1 \<rparr>
      in if state cb1 = HalfOpen then cb1\<lparr> state := Open, successes := 0 \<rparr>
         else if state cb1 = Closed then
           (let cb2 = cleanOldFailures now cb1
            in if int (length (failures cb2)) \<ge> failureThreshold (config cb2)
               then cb2\<lparr> state := Open \<rparr> else cb2)
         else cb1)"

text \<open>
  \<open>execute\<close>. The clock is read once on entry (\<open>cleanOldFailures\<close> and \<open>shouldAttemptReset\<close>
  run back to back) and once more in \<open>onFailure\<close>, after the operation has settled;
  \<open>tryOperation\<close> is the \<open>try\<close> block around the operation.
\<close>

definition tryOperation ::
  "('w \<Rightarrow> int) \<Rightarrow> CircuitBreaker \<Rightarrow> ('a, 'w) operation \<Rightarrow> 'w
     \<Rightarrow> (thrown + 'a) \<times> CircuitBreaker \<times> 'w" where
  "tryOperation clock cb operation w =
     (case operation w of
        (Inr result, w') \<Rightarrow> (Inr result, onSuccess cb, w')
      | (Inl error, w') \<Rightarrow> (Inl error, onFailure (clock w') cb, w'))"

definition execute ::
  "('w \<Rightarrow> int) \<Rightarrow> CircuitBreaker \<Rightarrow> ('a, 'w) operation \<Rightarrow> 'w
     \<Rightarrow> (thrown + 'a) \<times> CircuitBreaker \<times> 'w" where
  "execute clock cb operation w =
     (if \<not> enabled (config cb) then (fst (operation w), cb, snd (operation w))
      else
        (let cb1 = cleanOldFailures (clock w) (cb\<lparr> totalRequests := totalRequests cb + 1 \<rparr>)
         in if state cb1 = Open then
              (if shouldAttemptReset (clock w) cb1
               then tryOperation clock (cb1\<lparr> state := HalfOpen, successes := 0 \<rparr>) operation w
               else (Inl CircuitOpenError, cb1, w))
            else tryOperation clock cb1 operation w))"

definition reset :: "CircuitBreaker \<Rightarrow> CircuitBreaker" where
  "reset cb = cb\<lparr> state := Closed, failures := [], successes := 0, lastFailureTime := None \<rparr>"

definition trip :: "int \<Rightarrow> CircuitBreaker \<Rightarrow> CircuitBreaker" where
  "trip now cb = cb\<lparr> state := Open, lastFailureTime := Some now \<rparr>"

section \<open>Retry middleware (\<open>middleware/retry.ts\<close>)\<close>

text \<open>
  JavaScript numbers are modelled by the reals they denote (attempt counts and
  \<open>maxRetries\<close> by integers): rounding of IEEE doubles, \<open>NaN\<close> and the infinities are outside
  the model. \<open>Math.random()\<close> draws from the world.
\<close>

record RetryConfig =
  maxRetries :: int
  initialDelayMs :: real
  maxDelayMs :: real
  multiplier :: real
  jitter :: bool
  retryableErrors :: "string list option"

definition DEFAULT_RETRY_CONFIG :: RetryConfig where
  "DEFAULT_RETRY_CONFIG =
     \<lparr> maxRetries = 3, initialDelayMs = 100, maxDelayMs = 10000, multiplier = 2, jitter = True,
       retryableErrors = None \<rparr>"

text \<open>
  A key of an options object is absent, present with the value \<open>undefined\<close>, or present
  with a value. The object spread \<open>{...defaults, ...options}\<close> takes every key that is
  present in \<open>options\<close>, so a key present with \<open>undefined\<close> overrides the default.
\<close>

datatype 'a field = Absent | Undefined | Value 'a

fun spreadField :: "'a option \<Rightarrow> 'a field \<Rightarrow> 'a option" where
  "spreadField d Absent = d"
| "spreadField d Undefined = None"
| "spreadField d (Value v) = Some v"

text \<open>
  The configuration object a spread produces at run time: each member is a value or
  \<open>undefined\<close> (\<open>None\<close>). Arithmetic on \<open>undefined\<close> gives \<open>NaN\<close>, which is \<open>None\<close> again.
\<close>

record RetryConfigObject =
  rcMaxRetries :: "int option"
  rcInitialDelayMs :: "real option"
  rcMaxDelayMs :: "real option"
  rcMultiplier :: "real option"
  rcJitter :: "bool option"
  rcRetryableErrors :: "string list option"

record RetryAttempt =
  attempt :: int
  maxAttempts :: int
  delayMs :: "int option"
  error :: thrown

text \<open>
  \<open>calculateBackoff\<close>. \<open>Math.pow(x, 0)\<close> is 1 for every \<open>x\<close>, \<open>NaN\<close> included; otherwise
  \<open>Math.pow\<close>, the product, \<open>Math.min\<close>, \<open>Math.max\<close> and \<open>Math.floor\<close> give \<open>NaN\<close> as soon as
  an argument is \<open>NaN\<close>. An \<open>undefined\<close> \<open>jitter\<close> is falsy.
\<close>

definition powNumber :: "real option \<Rightarrow> int \<Rightarrow> real option" where
  "powNumber x e = (if e = 0 then Some 1 else map_option (\<lambda>b. b powi e) x)"

definition calculateBackoff ::
  "('w \<Rightarrow> real \<times> 'w) \<Rightarrow> int \<Rightarrow> RetryConfigObject \<Rightarrow> 'w \<Rightarrow> int option \<times> 'w" where
  "calculateBackoff mathRandom att cfg w =
     (let exponentialDelay =
            (case (rcInitialDelayMs cfg, powNumber (rcMultiplier cfg) (att - 1)) of
               (Some i, Some p) \<Rightarrow> Some (i * p)
             | _ \<Rightarrow> None);
          delay = (case (exponentialDelay, rcMaxDelayMs cfg) of
                     (Some e, Some mx) \<Rightarrow> Some (min e mx)
                   | _ \<Rightarrow> None)
      in if rcJitter cfg = Some True then
           (map_option (\<lambda>d. \<lfloor>max 0 (d + (fst (mathRandom w) * (d * 0.25) * 2 - d * 0.25))\<rfloor>) delay,
            snd (mathRandom w))
         else (map_option (\<lambda>d. \<lfloor>d\<rfloor>) delay, w))"

text \<open>
  \<open>String.prototype.toLowerCase\<close> and \<open>String.prototype.includes\<close>, on ASCII text.
\<close>

definition toLowerCase :: "string \<Rightarrow> string" where
  "toLowerCase s =
     map (\<lambda>ch. case map_of (zip ''ABCDEFGHIJKLMNOPQRSTUVWXYZ'' ''abcdefghijklmnopqrstuvwxyz'') ch of
                  None \<Rightarrow> ch | Some l \<Rightarrow> l) s"

fun startsWith :: "string \<Rightarrow> string \<Rightarrow> bool" where
  "startsWith s [] = True"
| "startsWith [] (p # ps) = False"
| "startsWith (ch # s) (p # ps) = (ch = p \<and> startsWith s ps)"

fun includes_str :: "string \<Rightarrow> string \<Rightarrow> bool" where
  "includes_str [] pat = startsWith [] pat"
| "includes_str (ch # s) pat = (startsWith (ch # s) pat \<or> includes_str s pat)"

definition defaultRetryablePatterns :: "string list" where
  "defaultRetryablePatterns =
     [''ECONNREFUSED'', ''ECONNRESET'', ''ETIMEDOUT'', ''ENOTFOUND'', ''EAI_AGAIN'',
      ''socket hang up'', ''connection refused'', ''network error'', ''timeout'',
      ''temporarily unavailable'', ''service unavailable'', ''too many requests'',
      ''rate limit'', ''throttl'']"

fun isRetryableError :: "thrown \<Rightarrow> string list option \<Rightarrow> bool" where
  "isRetryableError (AnyQError n c r m) retryablePatterns = r"
| "isRetryableError e retryablePatterns =
     (if (case retryablePatterns of None \<Rightarrow> False | Some ps \<Rightarrow> length ps > 0)
      then list_ex (\<lambda>pattern. includes_str (toLowerCase (message_of e)) (toLowerCase pattern))
             (the retryablePatterns)
      else list_ex (\<lambda>pattern. includes_str (toLowerCase (message_of e)) (toLowerCase pattern)
                             \<or> includes_str (toLowerCase (name_of e)) (toLowerCase pattern))
             defaultRetryablePatterns)"

text \<open>
  \<open>sleep\<close>: \<open>timer ms\<close> is the world once the timeout of \<open>ms\<close> milliseconds has fired
  (\<open>None\<close> is the delay \<open>NaN\<close>, which \<open>setTimeout\<close> takes for its minimum). With an
  abort signal the promise rejects when the signal is already aborted, or is aborted by
  the time the timeout fires.
\<close>

definition sleep ::
  "(int option \<Rightarrow> 'w \<Rightarrow> 'w) \<Rightarrow> ('w \<Rightarrow> bool) option \<Rightarrow> int option \<Rightarrow> 'w \<Rightarrow> bool \<times> 'w" where
  "sleep timer signal ms w =
     (case signal of
        None \<Rightarrow> (True, timer ms w)
      | Some aborted \<Rightarrow>
          if aborted w then (False, w)
          else if aborted (timer ms w) then (False, timer ms w) else (True, timer ms w))"

text \<open>
  The options of \<open>withRetry\<close>: a partial \<open>RetryConfig\<close> spread over the defaults, the
  \<open>onRetry\<close> callback (which may throw), the retryability predicate and the abort signal.
\<close>

record PartialRetryConfig =
  maxRetriesOpt :: "int field"
  initialDelayMsOpt :: "real field"
  maxDelayMsOpt :: "real field"
  multiplierOpt :: "real field"
  jitterOpt :: "bool field"
  retryableErrorsOpt :: "string list field"

record 'w RetryOptions = PartialRetryConfig +
  onRetry :: "(RetryAttempt \<Rightarrow> 'w \<Rightarrow> thrown option \<times> 'w) option"
  isRetryable :: "(thrown \<Rightarrow> string list option \<Rightarrow> bool) option"
  signal :: "('w \<Rightarrow> bool) option"

definition mergeRetryConfig :: "RetryConfig \<Rightarrow> ('w, 'z) RetryOptions_scheme \<Rightarrow> RetryConfigObject" where
  "mergeRetryConfig defaults options =
     \<lparr> rcMaxRetries = spreadField (Some (maxRetries defaults)) (maxRetriesOpt options),
       rcInitialDelayMs = spreadField (Some (initialDelayMs defaults)) (initialDelayMsOpt options),
       rcMaxDelayMs = spreadField (Some (maxDelayMs defaults)) (maxDelayMsOpt options),
       rcMultiplier = spreadField (Some (multiplier defaults)) (multiplierOpt options),
       rcJitter = spreadField (Some (jitter defaults)) (jitterOpt options),
       rcRetryableErrors = spreadField (retryableErrors defaults) (retryableErrorsOpt options) \<rparr>"

text \<open>
  What a run of \<open>withRetry\<close> does, in order: invocations of the operation, calls of
  \<open>onRetry\<close> with their argument, and completed sleeps with their delay.
\<close>

datatype RetryEvent = Invoked | OnRetry RetryAttempt | Slept "int option"

text \<open>
  The \<open>for\<close> loop of \<open>withRetry\<close>, from attempt \<open>att\<close> on; \<open>lastError\<close> is the error of the
  previous attempt, if any. The result is what the promise settles with, the events of
  the run, and the world after it.
\<close>

function retryLoop ::
  "('w \<Rightarrow> real \<times> 'w) \<Rightarrow> (int option \<Rightarrow> 'w \<Rightarrow> 'w) \<Rightarrow> RetryConfigObject
     \<Rightarrow> (RetryAttempt \<Rightarrow> 'w \<Rightarrow> thrown option \<times> 'w) option
     \<Rightarrow> (thrown \<Rightarrow> string list option \<Rightarrow> bool) \<Rightarrow> ('w \<Rightarrow> bool) option
     \<Rightarrow> ('a, 'w) operation \<Rightarrow> int \<Rightarrow> int \<Rightarrow> thrown option \<Rightarrow> 'w
     \<Rightarrow> (thrown + 'a) \<times> RetryEvent list \<times> 'w" where
  "retryLoop mathRandom timer cfg onRetryOpt isRetryableFn sig operation totalAttempts att lastError w =
     (if att \<le> totalAttempts then
        (if (case sig of None \<Rightarrow> False | Some aborted \<Rightarrow> aborted w)
         then (Inl (PlainError ''Error'' ''Operation aborted''), [], w)
         else
           (case fst (operation w) of
              Inr result \<Rightarrow> (Inr result, [Invoked], snd (operation w))
            | Inl err \<Rightarrow>
                (let w1 = snd (operation w);
                     lastError1 = toError err;
                     isLastAttempt = (att \<ge> totalAttempts);
                     shouldRetry = (\<not> isLastAttempt \<and> isRetryableFn lastError1 (rcRetryableErrors cfg))
                 in if \<not> shouldRetry then (Inl lastError1, [Invoked], w1)
                    else
                      (let delay = fst (calculateBackoff mathRandom att cfg w1);
                           w2 = snd (calculateBackoff mathRandom att cfg w1);
                           attemptInfo = \<lparr> attempt = att + 1, maxAttempts = totalAttempts,
                                           delayMs = delay, error = lastError1 \<rparr>;
                           called = (case onRetryOpt of None \<Rightarrow> (None, w2)
                                     | Some callback \<Rightarrow> callback attemptInfo w2);
                           notified = (case onRetryOpt of None \<Rightarrow> [] | Some callback \<Rightarrow> [OnRetry attemptInfo])
                       in case fst called of
                            Some ex \<Rightarrow> (Inl ex, Invoked # notified, snd called)
                          | None \<Rightarrow>
                              (if \<not> fst (sleep timer sig delay (snd called))
                               then (Inl (PlainError ''Error'' ''Aborted''), Invoked # notified,
                                     snd (sleep timer sig delay (snd called)))
                               else
                                 (let rest = retryLoop mathRandom timer cfg onRetryOpt isRetryableFn sig
                                               operation totalAttempts (att + 1) (Some lastError1)
                                               (snd (sleep timer sig delay (snd called)))
                                  in (fst rest, (Invoked # notified) @ Slept delay # fst (snd rest),
                                      snd (snd rest))))))))
      else
        (Inl (case lastError of None \<Rightarrow> PlainError ''Error'' ''Unknown error during retry''
              | Some e \<Rightarrow> e), [], w))"
  by pat_completeness auto
termination
  by (relation "measure (\<lambda>(mathRandom, timer, cfg, onRetryOpt, isRetryableFn, sig, operation,
                           totalAttempts, att, lastError, w). nat (totalAttempts + 1 - att))")
     auto

declare retryLoop.simps [simp del]

text \<open>
  \<open>withRetry\<close>. With \<open>maxRetries\<close> \<open>undefined\<close> the bound \<open>config.maxRetries + 1\<close> is \<open>NaN\<close>,
  the loop condition \<open>attempt <= totalAttempts\<close> is false at once, the operation is never
  invoked and the final \<open>throw\<close> is reached with no last error.
\<close>

definition withRetry ::
  "('w \<Rightarrow> real \<times> 'w) \<Rightarrow> (int option \<Rightarrow> 'w \<Rightarrow> 'w) \<Rightarrow> ('a, 'w) operation \<Rightarrow> 'w RetryOptions \<Rightarrow> 'w
     \<Rightarrow> (thrown + 'a) \<times> RetryEvent list \<times> 'w" where
  "withRetry mathRandom timer operation options w =
     (let cfg = mergeRetryConfig DEFAULT_RETRY_CONFIG options;
          isRetryableFn = (case isRetryable options of None \<Rightarrow> isRetryableError | Some f \<Rightarrow> f)
      in case rcMaxRetries cfg of
           None \<Rightarrow> (Inl (PlainError ''Error'' ''Unknown error during retry''), [], w)
         | Some m \<Rightarrow>
             retryLoop mathRandom timer cfg (onRetry options) isRetryableFn (signal options)
               operation (m + 1) 1 None w)"

section \<open>Backoff strategies (\<open>utils/backoff.ts\<close>)\<close>

datatype BackoffStrategy = Exponential | Linear | Constant | Fibonacci

record BackoffOptions =
  strategy :: "BackoffStrategy option"
  boInitialDelayMs :: "real option"
  boMaxDelayMs :: "real option"
  boMultiplier :: "real option"
  boJitter :: "bool option"
  jitterFactor :: "real option"

definition orDefault :: "'a option \<Rightarrow> 'a \<Rightarrow> 'a" where
  "orDefault v d = (case v of None \<Rightarrow> d | Some x \<Rightarrow> x)"

text \<open>\<open>applyJitter\<close>: one draw of \<open>Math.random()\<close>.\<close>

definition applyJitter :: "('w \<Rightarrow> real \<times> 'w) \<Rightarrow> real \<Rightarrow> real \<Rightarrow> 'w \<Rightarrow> real \<times> 'w" where
  "applyJitter mathRandom delay factor w =
     (let jitterRange = delay * factor;
          jit = fst (mathRandom w) * jitterRange * 2 - jitterRange
      in (max 0 (delay + jit), snd (mathRandom w)))"

definition exponentialBackoff ::
  "('w \<Rightarrow> real \<times> 'w) \<Rightarrow> int \<Rightarrow> BackoffOptions \<Rightarrow> 'w \<Rightarrow> int \<times> 'w" where
  "exponentialBackoff mathRandom att options w =
     (let initialDelay = orDefault (boInitialDelayMs options) (initialDelayMs DEFAULT_RETRY_CONFIG);
          maxDelay = orDefault (boMaxDelayMs options) (maxDelayMs DEFAULT_RETRY_CONFIG);
          mult = orDefault (boMultiplier options) (multiplier DEFAULT_RETRY_CONFIG);
          jit = orDefault (boJitter options) (jitter DEFAULT_RETRY_CONFIG);
          factor = orDefault (jitterFactor options) 0.25;
          delay = min (initialDelay * (mult powi (att - 1))) maxDelay
      in if jit then (\<lfloor>fst (applyJitter mathRandom delay factor w)\<rfloor>,
                      snd (applyJitter mathRandom delay factor w))
         else (\<lfloor>delay\<rfloor>, w))"

definition linearBackoff ::
  "('w \<Rightarrow> real \<times> 'w) \<Rightarrow> int \<Rightarrow> BackoffOptions \<Rightarrow> 'w \<Rightarrow> int \<times> 'w" where
  "linearBackoff mathRandom att options w =
     (let initialDelay = orDefault (boInitialDelayMs options) (initialDelayMs DEFAULT_RETRY_CONFIG);
          maxDelay = orDefault (boMaxDelayMs options) (maxDelayMs DEFAULT_RETRY_CONFIG);
          mult = orDefault (boMultiplier options) 1000;
          jit = orDefault (boJitter options) (jitter DEFAULT_RETRY_CONFIG);
          factor = orDefault (jitterFactor options) 0.25;
          delay = min (initialDelay + (of_int att - 1) * mult) maxDelay
      in if jit then (\<lfloor>fst (applyJitter mathRandom delay factor w)\<rfloor>,
                      snd (applyJitter mathRandom delay factor w))
         else (\<lfloor>delay\<rfloor>, w))"

definition constantBackoff ::
  "('w \<Rightarrow> real \<times> 'w) \<Rightarrow> int \<Rightarrow> BackoffOptions \<Rightarrow> 'w \<Rightarrow> int \<times> 'w" where
  "constantBackoff mathRandom att options w =
     (let initialDelay = orDefault (boInitialDelayMs options) (initialDelayMs DEFAULT_RETRY_CONFIG);
          jit = orDefault (boJitter options) (jitter DEFAULT_RETRY_CONFIG);
          factor = orDefault (jitterFactor options) 0.25;
          delay = initialDelay
      in if jit then (\<lfloor>fst (applyJitter mathRandom delay factor w)\<rfloor>,
                      snd (applyJitter mathRandom delay factor w))
         else (\<lfloor>delay\<rfloor>, w))"

text \<open>\<open>fibonacci\<close>: the loop \<open>for (i = 2; i < n; i++)\<close> runs \<open>n - 2\<close> times.\<close>

fun fibonacciLoop :: "nat \<Rightarrow> real \<Rightarrow> real \<Rightarrow> real" where
  "fibonacciLoop 0 prv cur = cur"
| "fibonacciLoop (Suc k) prv cur = fibonacciLoop k cur (prv + cur)"

definition fibonacci :: "int \<Rightarrow> real" where
  "fibonacci n = (if n \<le> 1 then 1 else fibonacciLoop (nat (n - 2)) 1 1)"

definition fibonacciBackoff ::
  "('w \<Rightarrow> real \<times> 'w) \<Rightarrow> int \<Rightarrow> BackoffOptions \<Rightarrow> 'w \<Rightarrow> int \<times> 'w" where
  "fibonacciBackoff mathRandom att options w =
     (let initialDelay = orDefault (boInitialDelayMs options) (initialDelayMs DEFAULT_RETRY_CONFIG);
          maxDelay = orDefault (boMaxDelayMs options) (maxDelayMs DEFAULT_RETRY_CONFIG);
          jit = orDefault (boJitter options) (jitter DEFAULT_RETRY_CONFIG);
          factor = orDefault (jitterFactor options) 0.25;
          delay = min (initialDelay * fibonacci att) maxDelay
      in if jit then (\<lfloor>fst (applyJitter mathRandom delay factor w)\<rfloor>,
                      snd (applyJitter mathRandom delay factor w))
         else (\<lfloor>delay\<rfloor>, w))"

definition calculateDelay ::
  "('w \<Rightarrow> real \<times> 'w) \<Rightarrow> int \<Rightarrow> BackoffOptions \<Rightarrow> 'w \<Rightarrow> int \<times> 'w" where
  "calculateDelay mathRandom att options w =
     (case orDefault (strategy options) Exponential of
        Exponential \<Rightarrow> exponentialBackoff mathRandom att options w
      | Linear \<Rightarrow> linearBackoff mathRandom att options w
      | Constant \<Rightarrow> constantBackoff mathRandom att options w
      | Fibonacci \<Rightarrow> fibonacciBackoff mathRandom att options w)"

section \<open>The adapter base and two producers\<close>

text \<open>
  \<open>BaseAdapter\<close> owns a circuit breaker and a retry configuration. \<open>executeWithResilience\<close>
  wraps an operation: the circuit breaker outermost, \<open>withRetry\<close> inside, with an \<open>onRetry\<close>
  callback that logs a warning (\<open>logWarn\<close>, which does not throw). It returns the outcome,
  the breaker after the call and the world after the call.
\<close>

record BaseAdapter =
  circuitBreaker :: CircuitBreaker
  retryConfig :: RetryConfigObject
  isConnected :: bool

text \<open>
  The constructor spreads \<open>config.retry\<close> over \<open>DEFAULT_RETRY_CONFIG\<close> (the circuit breaker
  configuration is given here already merged with its defaults); the options handed to
  \<open>withRetry\<close> are \<open>{...this.retryConfig, onRetry}\<close>, with every key of the configuration
  present.
\<close>

definition fieldOf :: "'a option \<Rightarrow> 'a field" where
  "fieldOf v = (case v of None \<Rightarrow> Undefined | Some x \<Rightarrow> Value x)"

definition newBaseAdapter :: "PartialRetryConfig option \<Rightarrow> CircuitBreakerConfig \<Rightarrow> BaseAdapter" where
  "newBaseAdapter retry cbConfig =
     \<lparr> circuitBreaker = newCircuitBreaker cbConfig,
       retryConfig =
         (case retry of
            None \<Rightarrow>
              mergeRetryConfig DEFAULT_RETRY_CONFIG
                \<lparr> maxRetriesOpt = Absent, initialDelayMsOpt = Absent, maxDelayMsOpt = Absent,
                  multiplierOpt = Absent, jitterOpt = Absent, retryableErrorsOpt = Absent,
                  onRetry = None, isRetryable = None, signal = None \<rparr>
          | Some r \<Rightarrow>
              mergeRetryConfig DEFAULT_RETRY_CONFIG
                \<lparr> maxRetriesOpt = maxRetriesOpt r, initialDelayMsOpt = initialDelayMsOpt r,
                  maxDelayMsOpt = maxDelayMsOpt r, multiplierOpt = multiplierOpt r,
                  jitterOpt = jitterOpt r, retryableErrorsOpt = retryableErrorsOpt r,
                  onRetry = None, isRetryable = None, signal = None \<rparr>),
       isConnected = False \<rparr>"

definition resilienceOptions ::
  "(string \<Rightarrow> RetryAttempt \<Rightarrow> 'w \<Rightarrow> 'w) \<Rightarrow> RetryConfigObject \<Rightarrow> string \<Rightarrow> 'w RetryOptions" where
  "resilienceOptions logWarn cfg operationName =
     \<lparr> maxRetriesOpt = fieldOf (rcMaxRetries cfg), initialDelayMsOpt = fieldOf (rcInitialDelayMs cfg),
       maxDelayMsOpt = fieldOf (rcMaxDelayMs cfg), multiplierOpt = fieldOf (rcMultiplier cfg),
       jitterOpt = fieldOf (rcJitter cfg), retryableErrorsOpt = fieldOf (rcRetryableErrors cfg),
       onRetry = Some (\<lambda>info w. (None, logWarn operationName info w)),
       isRetryable = None, signal = None \<rparr>"

definition executeWithResilience ::
  "('w \<Rightarrow> int) \<Rightarrow> ('w \<Rightarrow> real \<times> 'w) \<Rightarrow> (int option \<Rightarrow> 'w \<Rightarrow> 'w)
     \<Rightarrow> (string \<Rightarrow> RetryAttempt \<Rightarrow> 'w \<Rightarrow> 'w)
     \<Rightarrow> ('z) BaseAdapter_scheme \<Rightarrow> ('a, 'w) operation \<Rightarrow> string \<Rightarrow> 'w
     \<Rightarrow> (thrown + 'a) \<times> CircuitBreaker \<times> 'w" where
  "executeWithResilience clock mathRandom timer logWarn adapter operation operationName w =
     execute clock (circuitBreaker adapter)
       (\<lambda>w1. (fst (withRetry mathRandom timer operation
                      (resilienceOptions logWarn (retryConfig adapter) operationName) w1),
              snd (snd (withRetry mathRandom timer operation
                      (resilienceOptions logWarn (retryConfig adapter) operationName) w1))))
       w"

record PublishOptions =
  poKey :: "string option"
  poHeaders :: "MessageHeaders option"
  orderingKey :: "string option"

subsection \<open>\<open>MemoryProducer\<close>\<close>

record MemoryProducer = BaseAdapter +
  producerQueue :: "addr option"
  producerQueueName :: string

text \<open>
  \<open>MemoryProducer.publish\<close>: the world is the heap of queues; the clock reading and the
  generated identifier of the \<open>enqueue\<close> are inputs. The producer is returned as it is
  after the call.
\<close>

definition publish ::
  "int \<Rightarrow> string \<Rightarrow> 'b \<Rightarrow> PublishOptions option \<Rightarrow> MemoryProducer \<Rightarrow> 'b heap
     \<Rightarrow> (thrown + string) \<times> MemoryProducer \<times> 'b heap" where
  "publish now newId b options p hp =
     (case producerQueue p of
        None \<Rightarrow> (Inl (ConnectionError ''Producer not connected''), p, hp)
      | Some a \<Rightarrow>
          (Inr (fst (enqueue now newId b (case options of None \<Rightarrow> None | Some po \<Rightarrow> poKey po)
                       (case options of None \<Rightarrow> None | Some po \<Rightarrow> poHeaders po) (hp a))),
           p,
           hp(a := snd (enqueue now newId b (case options of None \<Rightarrow> None | Some po \<Rightarrow> poKey po)
                          (case options of None \<Rightarrow> None | Some po \<Rightarrow> poHeaders po) (hp a)))))"

text \<open>
  The same publish as the specification words it: the hand-over to the backend (here the
  \<open>enqueue\<close>) routed through \<open>executeWithResilience\<close>, the producer's breaker updated by it.
\<close>

definition memorySend ::
  "int \<Rightarrow> string \<Rightarrow> 'b \<Rightarrow> PublishOptions option \<Rightarrow> addr \<Rightarrow> (string, 'b heap) operation" where
  "memorySend now newId b options a hp =
     (Inr (fst (enqueue now newId b (case options of None \<Rightarrow> None | Some po \<Rightarrow> poKey po)
                  (case options of None \<Rightarrow> None | Some po \<Rightarrow> poHeaders po) (hp a))),
      hp(a := snd (enqueue now newId b (case options of None \<Rightarrow> None | Some po \<Rightarrow> poKey po)
                     (case options of None \<Rightarrow> None | Some po \<Rightarrow> poHeaders po) (hp a))))"

definition publish_routed_through_resilience ::
  "int \<Rightarrow> string \<Rightarrow> 'b \<Rightarrow> PublishOptions option \<Rightarrow> MemoryProducer \<Rightarrow> 'b heap
     \<Rightarrow> (thrown + string) \<times> MemoryProducer \<times> 'b heap" where
  "publish_routed_through_resilience now newId b options p hp =
     (case producerQueue p of
        None \<Rightarrow> (Inl (ConnectionError ''Producer not connected''), p, hp)
      | Some a \<Rightarrow>
          (let r = executeWithResilience (\<lambda>w. now) (\<lambda>w. (0, w)) (\<lambda>ms w. w) (\<lambda>name info w. w) p
                     (memorySend now newId b options a) ''publish'' hp
           in (fst r, p\<lparr> circuitBreaker := fst (snd r) \<rparr>, snd (snd r))))"

subsection \<open>\<open>PubSubProducer\<close>\<close>

text \<open>
  The Pub/Sub SDK and the serializer are parameters: \<open>serializer\<close> is the configured
  serializer, \<open>generateUUID\<close> draws an identifier from the world, and \<open>publishMessage\<close> is
  \<open>topic.publishMessage\<close>, an operation on the world. The producer holds a topic once
  connected.
\<close>

record PubSubMessage =
  data :: string
  attributes :: "(string \<times> string) list"
  messageOrderingKey :: "string option"

record PubSubProducer = BaseAdapter +
  hasTopic :: bool

definition pubsubMessage :: "string \<Rightarrow> string \<Rightarrow> PublishOptions option \<Rightarrow> PubSubMessage" where
  "pubsubMessage serializedBody messageId options =
     \<lparr> data = serializedBody,
       attributes = AList.update ''anyq-message-id'' messageId
                      (case options of None \<Rightarrow> []
                       | Some po \<Rightarrow> (case poHeaders po of None \<Rightarrow> [] | Some hs \<Rightarrow> hs)),
       messageOrderingKey =
         (case options of
            None \<Rightarrow> None
          | Some po \<Rightarrow>
              (if orderingKey po \<noteq> None \<and> orderingKey po \<noteq> Some [] then orderingKey po
               else if poKey po \<noteq> None \<and> poKey po \<noteq> Some [] then poKey po
               else None)) \<rparr>"

definition pubsubPublish ::
  "('b \<Rightarrow> thrown + string) \<Rightarrow> ('w \<Rightarrow> string \<times> 'w) \<Rightarrow> (PubSubMessage \<Rightarrow> (string, 'w) operation)
     \<Rightarrow> 'b \<Rightarrow> PublishOptions option \<Rightarrow> PubSubProducer \<Rightarrow> 'w
     \<Rightarrow> (thrown + string) \<times> PubSubProducer \<times> 'w" where
  "pubsubPublish serializer generateUUID publishMessage b options p w =
     (if \<not> hasTopic p then (Inl (ConnectionError ''Producer not connected''), p, w)
      else
        (case serializer b of
           Inl e \<Rightarrow> (Inl (PublishError ''Failed to publish message''), p, w)
         | Inr serializedBody \<Rightarrow>
             (let messageId = fst (generateUUID w);
                  w1 = snd (generateUUID w);
                  sent = publishMessage (pubsubMessage serializedBody messageId options) w1
              in case fst sent of
                   Inr publishedId \<Rightarrow> (Inr publishedId, p, snd sent)
                 | Inl e \<Rightarrow> (Inl (PublishError ''Failed to publish message''), p, snd sent))))"

section \<open>The JSON serializer (\<open>JsonSerializer\<close>)\<close>

text \<open>
  JavaScript values as far as the serializer distinguishes them. A \<open>Date\<close> carries its
  time value in milliseconds, \<open>None\<close> for an invalid date. A non-finite number is \<open>NaN\<close> or
  an infinity. Object members are kept in insertion order, with unique keys.
\<close>

datatype jsvalue =
    JUndefined
  | JNull
  | JBool bool
  | JNumber real
  | JNonFinite
  | JString string
  | JBigInt int
  | JDate "int option"
  | JArray "jsvalue list"
  | JObject "(string \<times> jsvalue) list"

text \<open>
  A JSON text is represented by its syntax tree: \<open>JSON.stringify\<close> prints such a tree and
  \<open>JSON.parse\<close> reads one (white space, and so the \<open>pretty\<close> option, does not show in it).
\<close>

datatype json =
    JsonNull
  | JsonBool bool
  | JsonNumber real
  | JsonString string
  | JsonArray "json list"
  | JsonObject "(string \<times> json) list"

text \<open>
  What the serializer takes from the JavaScript runtime: \<open>Date.prototype.toISOString\<close> on a
  valid time value, the \<open>Date\<close> constructor applied to one value (\<open>None\<close> when the result is
  an invalid date), the \<open>BigInt\<close> conversion, and the depth of recursion at which
  \<open>JSON.stringify\<close> overflows the call stack.
\<close>

record JsRuntime =
  rtToISOString :: "int \<Rightarrow> string"
  rtNewDate :: "jsvalue \<Rightarrow> int option"
  rtToBigInt :: "jsvalue \<Rightarrow> thrown + int"
  rtStackLimit :: nat

record JsonSerializerOptions =
  pretty :: "bool option"
  replacer :: "(string \<Rightarrow> jsvalue \<Rightarrow> thrown + jsvalue) option"
  reviver :: "(string \<Rightarrow> jsvalue \<Rightarrow> thrown + jsvalue) option"
  handleBigInt :: "bool option"
  handleDates :: "bool option"

text \<open>\<open>BigInt.prototype.toString\<close>: the decimal digits, with a minus sign when negative.\<close>

definition string_of_int :: "int \<Rightarrow> string" where
  "string_of_int i = (if i < 0 then CHR ''-'' # string_of_nat (nat (- i)) else string_of_nat (nat i))"

text \<open>
  \<open>defaultReplacer\<close>. \<open>toISOString\<close> throws a \<open>RangeError\<close> on an invalid date.
\<close>

definition defaultReplacer ::
  "JsRuntime \<Rightarrow> JsonSerializerOptions \<Rightarrow> string \<Rightarrow> jsvalue \<Rightarrow> thrown + jsvalue" where
  "defaultReplacer rt options k v =
     (case v of
        JBigInt n \<Rightarrow>
          if handleBigInt options \<noteq> Some False
          then Inr (JObject [(''__type'', JString ''bigint''), (''value'', JString (string_of_int n))])
          else Inr v
      | JDate d \<Rightarrow>
          if handleDates options \<noteq> Some False
          then (case d of
                  None \<Rightarrow> Inl (PlainError ''RangeError'' ''Invalid time value'')
                | Some ms \<Rightarrow>
                    Inr (JObject [(''__type'', JString ''date''),
                                  (''value'', JString (rtToISOString rt ms))]))
          else Inr v
      | _ \<Rightarrow> Inr v)"

text \<open>
  \<open>JSON.stringify(value, replacer)\<close>, after ECMA-262 (\<open>SerializeJSONProperty\<close>,
  \<open>SerializeJSONArray\<close>, \<open>SerializeJSONObject\<close>). For each property the value's own
  \<open>toJSON\<close> method is applied first (of the values modelled, only a \<open>Date\<close> has one:
  \<open>Date.prototype.toJSON\<close> gives \<open>null\<close> for an invalid date and the ISO string otherwise),
  then the replacer function, then the result is printed by type; an \<open>undefined\<close> result
  is omitted from an object and printed as \<open>null\<close> in an array. The first argument bounds
  the depth of the recursion: \<open>None\<close> is the overflow of the call stack.
\<close>

definition toJSON :: "JsRuntime \<Rightarrow> jsvalue \<Rightarrow> jsvalue" where
  "toJSON rt v =
     (case v of
        JDate None \<Rightarrow> JNull
      | JDate (Some ms) \<Rightarrow> JString (rtToISOString rt ms)
      | _ \<Rightarrow> v)"

fun serializeJSONProperty ::
      "nat \<Rightarrow> JsRuntime \<Rightarrow> (string \<Rightarrow> jsvalue \<Rightarrow> thrown + jsvalue) \<Rightarrow> string \<Rightarrow> jsvalue
         \<Rightarrow> (thrown + json option) option"
  and serializeJSONArray ::
      "nat \<Rightarrow> JsRuntime \<Rightarrow> (string \<Rightarrow> jsvalue \<Rightarrow> thrown + jsvalue) \<Rightarrow> nat \<Rightarrow> jsvalue list
         \<Rightarrow> (thrown + json list) option"
  and serializeJSONObject ::
      "nat \<Rightarrow> JsRuntime \<Rightarrow> (string \<Rightarrow> jsvalue \<Rightarrow> thrown + jsvalue) \<Rightarrow> (string \<times> jsvalue) list
         \<Rightarrow> (thrown + (string \<times> json) list) option"
where
  "serializeJSONProperty 0 rt repl k v = None"
| "serializeJSONProperty (Suc depth) rt repl k v =
     (case repl k (toJSON rt v) of
        Inl e \<Rightarrow> Some (Inl e)
      | Inr JUndefined \<Rightarrow> Some (Inr None)
      | Inr JNull \<Rightarrow> Some (Inr (Some JsonNull))
      | Inr (JBool b) \<Rightarrow> Some (Inr (Some (JsonBool b)))
      | Inr (JNumber x) \<Rightarrow> Some (Inr (Some (JsonNumber x)))
      | Inr JNonFinite \<Rightarrow> Some (Inr (Some JsonNull))
      | Inr (JString s) \<Rightarrow> Some (Inr (Some (JsonString s)))
      | Inr (JBigInt n) \<Rightarrow>
          Some (Inl (PlainError ''TypeError'' ''Do not know how to serialize a BigInt''))
      | Inr (JDate d) \<Rightarrow> Some (Inr (Some (JsonObject [])))
      | Inr (JArray xs) \<Rightarrow>
          (case serializeJSONArray depth rt repl 0 xs of
             None \<Rightarrow> None
           | Some (Inl e) \<Rightarrow> Some (Inl e)
           | Some (Inr js) \<Rightarrow> Some (Inr (Some (JsonArray js))))
      | Inr (JObject kvs) \<Rightarrow>
          (case serializeJSONObject depth rt repl kvs of
             None \<Rightarrow> None
           | Some (Inl e) \<Rightarrow> Some (Inl e)
           | Some (Inr ms) \<Rightarrow> Some (Inr (Some (JsonObject ms)))))"
| "serializeJSONArray depth rt repl i [] = Some (Inr [])"
| "serializeJSONArray depth rt repl i (x # xs) =
     (case serializeJSONProperty depth rt repl (string_of_nat i) x of
        None \<Rightarrow> None
      | Some (Inl e) \<Rightarrow> Some (Inl e)
      | Some (Inr strP) \<Rightarrow>
          (case serializeJSONArray depth rt repl (Suc i) xs of
             None \<Rightarrow> None
           | Some (Inl e) \<Rightarrow> Some (Inl e)
           | Some (Inr js) \<Rightarrow>
               Some (Inr ((case strP of None \<Rightarrow> JsonNull | Some j \<Rightarrow> j) # js))))"
| "serializeJSONObject depth rt repl [] = Some (Inr [])"
| "serializeJSONObject depth rt repl ((k, x) # kvs) =
     (case serializeJSONProperty depth rt repl k x of
        None \<Rightarrow> None
      | Some (Inl e) \<Rightarrow> Some (Inl e)
      | Some (Inr strP) \<Rightarrow>
          (case serializeJSONObject depth rt repl kvs of
             None \<Rightarrow> None
           | Some (Inl e) \<Rightarrow> Some (Inl e)
           | Some (Inr ms) \<Rightarrow>
               Some (Inr ((case strP of None \<Rightarrow> [] | Some j \<Rightarrow> [(k, j)]) @ ms))))"

text \<open>
  \<open>JsonSerializer.serialize\<close>: any exception of \<open>JSON.stringify\<close>, the overflow of the call
  stack included, is rethrown as a \<open>SerializationError\<close>. The result \<open>None\<close> is
  \<open>undefined\<close>, which \<open>JSON.stringify\<close> returns for an \<open>undefined\<close> value.
\<close>

definition serialize :: "JsRuntime \<Rightarrow> JsonSerializerOptions \<Rightarrow> jsvalue \<Rightarrow> thrown + json option" where
  "serialize rt options v =
     (case serializeJSONProperty (rtStackLimit rt) rt
             (case replacer options of None \<Rightarrow> defaultReplacer rt options | Some f \<Rightarrow> f) [] v of
        None \<Rightarrow>
          Inl (SerializationError
                 ''Failed to serialize value to JSON: Maximum call stack size exceeded'')
      | Some (Inl e) \<Rightarrow>
          Inl (SerializationError (''Failed to serialize value to JSON: '' @ message_of e))
      | Some (Inr text) \<Rightarrow> Inr text)"












section \<open>Properties of the in-memory queue\<close>

lemma enqueue_config:
  "maxMessages (snd (enqueue now i b k hs q)) = maxMessages q"
  "maxAgeMs (snd (enqueue now i b k hs q)) = maxAgeMs q"
  "processing (snd (enqueue now i b k hs q)) = processing q"
  "queueName (snd (enqueue now i b k hs q)) = queueName q"
  by (simp_all add: enqueue_def cleanup_def Let_def)

lemma enqueue_bodies_noage:
  assumes "maxAgeMs q \<le> 0"
  shows "map body (messages (snd (enqueue now i b k hs q))) =
           (if maxMessages q > 0 \<and> int (length (messages q)) + 1 > maxMessages q
            then tl (map body (messages q) @ [b]) else map body (messages q) @ [b])"
  using assms by (simp add: enqueue_def cleanup_def Let_def map_tl)

lemma enqueueAll_bodies:
  assumes "maxAgeMs q \<le> 0" "1 \<le> maxMessages q" "int (length (messages q)) \<le> maxMessages q"
  shows "map body (messages (enqueueAll xs q)) =
           drop (length (messages q) + length xs - nat (maxMessages q))
                (map body (messages q) @ map (\<lambda>x. snd (snd x)) xs)"
  using assms
proof (induction xs arbitrary: q)
  case Nil
  then show ?case by simp
next
  case (Cons x xs)
  obtain now i b where x: "x = (now, i, b)" by (cases x) auto
  let ?q' = "snd (enqueue now i b None None q)"
  have bod: "map body (messages ?q') =
           (if int (length (messages q)) + 1 > maxMessages q
            then tl (map body (messages q) @ [b]) else map body (messages q) @ [b])"
    using enqueue_bodies_noage[OF Cons.prems(1)] Cons.prems(2) by simp
  have len: "length (messages ?q') =
           (if int (length (messages q)) + 1 > maxMessages q
            then length (messages q) else length (messages q) + 1)"
    using arg_cong[OF bod, of length] by (simp split: if_splits)
  have le: "int (length (messages ?q')) \<le> maxMessages ?q'"
    using len Cons.prems(3) by (simp add: enqueue_config split: if_splits)
  have ih: "map body (messages (enqueueAll xs ?q')) =
           drop (length (messages ?q') + length xs - nat (maxMessages q))
                (map body (messages ?q') @ map (\<lambda>x. snd (snd x)) xs)"
    using Cons.IH[of ?q'] Cons.prems le by (simp add: enqueue_config)
  let ?A = "map body (messages q)" and ?R = "map (\<lambda>x. snd (snd x)) xs"
  let ?K = "nat (maxMessages q)"
  show ?case
  proof (cases "int (length (messages q)) + 1 > maxMessages q")
    case True
    then have eq: "length (messages q) = ?K" using Cons.prems by linarith
    have t: "tl (?A @ [b]) @ ?R = tl (?A @ b # ?R)"
      by (cases "messages q") simp_all
    have l': "length (messages ?q') = ?K" using len True eq by simp
    have "map body (messages (enqueueAll (x # xs) q)) = map body (messages (enqueueAll xs ?q'))"
      using x by simp
    also have "\<dots> = drop (?K + length xs - ?K) (tl (?A @ [b]) @ ?R)"
      using ih bod True l' by simp
    also have "\<dots> = drop (length xs) (tl (?A @ b # ?R))"
      using t by simp
    also have "\<dots> = drop (Suc (length xs)) (?A @ b # ?R)"
      by (simp only: drop_Suc)
    also have "\<dots> = drop (length (messages q) + length (x # xs) - ?K) (?A @ map (\<lambda>x. snd (snd x)) (x # xs))"
      using eq x by simp
    finally show ?thesis .
  next
    case False
    have l': "length (messages ?q') = length (messages q) + 1" using len False by simp
    have "map body (messages (enqueueAll (x # xs) q)) = map body (messages (enqueueAll xs ?q'))"
      using x by simp
    also have "\<dots> = drop (length (messages q) + 1 + length xs - ?K) ((?A @ [b]) @ ?R)"
      using ih bod False l' by simp
    also have "\<dots> = drop (length (messages q) + length (x # xs) - ?K) (?A @ map (\<lambda>x. snd (snd x)) (x # xs))"
      using x by simp
    finally show ?thesis .
  qed
qed

text \<open>
  Claim C7 (overflow eviction). A queue created with \<open>maxMessages = K\<close>, \<open>K \<ge> 1\<close>, and no
  age limit, then filled by any run of \<open>enqueue\<close> calls, holds the last \<open>min n K\<close> of the
  \<open>n\<close> enqueued bodies in their order: every enqueue that overflows drops the head.
  For \<open>n = K + 1\<close> exactly \<open>K\<close> messages are stored and the oldest is gone. The witness is
  the scenario of the test suite: \<open>maxMessages = 3\<close>, bodies 0 to 4, size 3, and the first
  dequeue yields body 2.
\<close>

theorem overflow_eviction:
  assumes "1 \<le> K"
  shows "size_q (enqueueAll xs (newMemoryQueue name (Some K) None)) = min (length xs) (nat K)
       \<and> map body (messages (enqueueAll xs (newMemoryQueue name (Some K) None)))
           = drop (length xs - nat K) (map (\<lambda>x. snd (snd x)) xs)"
proof -
  let ?q0 = "newMemoryQueue name (Some K) None :: 'a MemoryQueue"
  have b: "map body (messages (enqueueAll xs ?q0))
             = drop (length xs - nat K) (map (\<lambda>x. snd (snd x)) xs)"
    using enqueueAll_bodies[of ?q0 xs] assms by (simp add: newMemoryQueue_def)
  have "length (messages (enqueueAll xs ?q0))
          = length (drop (length xs - nat K) (map (\<lambda>x. snd (snd x)) xs))"
    using arg_cong[OF b, of length] by simp
  also have "\<dots> = min (length xs) (nat K)"
    by (simp add: min_def)
  finally show ?thesis using b by (simp add: size_q_def)
qed

theorem overflow_eviction_witness:
  "(1::int) \<le> 3
   \<and> size_q (enqueueAll [(10, ''id0'', 0::nat), (11, ''id1'', 1), (12, ''id2'', 2),
                          (13, ''id3'', 3), (14, ''id4'', 4)]
               (newMemoryQueue ''limited'' (Some 3) None)) = 3
   \<and> map_option body (fst (dequeue 15
        (enqueueAll [(10, ''id0'', 0::nat), (11, ''id1'', 1), (12, ''id2'', 2),
                     (13, ''id3'', 3), (14, ''id4'', 4)]
           (newMemoryQueue ''limited'' (Some 3) None)))) = Some 2"
  using overflow_eviction [of 3 "[(10, ''id0'', 0::nat), (11, ''id1'', 1), (12, ''id2'', 2),
                          (13, ''id3'', 3), (14, ''id4'', 4)]" "''limited''"]
  by (simp add: newMemoryQueue_def enqueue_def dequeue_def cleanup_def size_q_def Let_def)

section \<open>Settlement and dead-letter routing\<close>

lemma ack_absent: "map_of (processing q) i = None \<Longrightarrow> ack i q = (False, q)"
  by (simp add: ack_def)

lemma nack_absent: "map_of (processing q) i = None \<Longrightarrow> nack i r q = (False, q)"
  by (simp add: nack_def)

lemma ack_removes: "map_of (processing (snd (ack i q))) i = None"
  by (simp add: ack_def delete_conv split: option.splits)

lemma nack_removes: "map_of (processing (snd (nack i r q))) i = None"
  by (simp add: nack_def delete_conv Let_def split: option.splits)

lemma settleQueue_removes: "map_of (processing (snd (settleQueue s i q))) i = None"
  by (cases s) (simp_all add: ack_removes nack_removes)

lemma settleQueue_absent:
  "map_of (processing q) i = None \<Longrightarrow> settleQueue s i q = (False, q)"
  by (cases s) (simp_all add: ack_absent nack_absent)

lemma message_settle_queue:
  "message_settle c i s hp =
     (case queue c of None \<Rightarrow> hp | Some a \<Rightarrow> hp(a := snd (settleQueue s i (hp a))))"
  by (cases s) (auto simp: message_ack_def message_nack_def split: option.splits)

text \<open>
  Claim C5 (settling is idempotent). Whatever the first settlement call on an envelope was
  (\<open>ack\<close>, \<open>nack\<close> with or without requeue), a second settlement call made right after it
  finds the identifier absent from the in-flight map: the queue operation returns \<open>false\<close>
  and the stored sequence and the in-flight map are exactly as the first call left them.
  The same holds for the envelope's closures, which never throw, also when the consumer
  has no queue any more.
\<close>

theorem settle_idempotent:
  "settleQueue second storedId (snd (settleQueue first storedId q))
     = (False, snd (settleQueue first storedId q))
   \<and> message_settle c storedId second (message_settle c storedId first hp)
     = message_settle c storedId first hp"
proof
  show "settleQueue second storedId (snd (settleQueue first storedId q))
     = (False, snd (settleQueue first storedId q))"
    by (rule settleQueue_absent) (rule settleQueue_removes)
next
  show "message_settle c storedId second (message_settle c storedId first hp)
     = message_settle c storedId first hp"
  proof (cases "queue c")
    case None
    then show ?thesis by (simp add: message_settle_queue)
  next
    case (Some a)
    have "settleQueue second storedId (snd (settleQueue first storedId (hp a)))
            = (False, snd (settleQueue first storedId (hp a)))"
      by (rule settleQueue_absent) (rule settleQueue_removes)
    then show ?thesis using Some by (simp add: message_settle_queue)
  qed
qed

subsection \<open>Ticks of the consumer under a handler that always throws\<close>













section \<open>Properties of the circuit breaker\<close>

text \<open>
  Claim C2, as stated, asks that a refused call leave every field but the request counter
  as it was. \<open>execute\<close> prunes the failure log before it looks at the state: a breaker
  opened at time 1000 with a failure window of 10 ms and a reset timeout of 100 ms, called
  at time 1050, refuses the call and drops the entry 1000 from its failure log.
\<close>

theorem open_breaker_unchanged_counterexample:
  "enabled (config \<lparr> state = Open, failures = [1000], successes = 0, lastFailureTime = Some 1000,
             totalRequests = 1, totalFailures = 1,
             config = \<lparr> enabled = True, failureThreshold = 1, failureWindow = 10,
                        resetTimeout = 100, successThreshold = 2 \<rparr> \<rparr>)
   \<and> (1050::int) - 1000 < 100
   \<and> fst (execute (\<lambda>w. 1050)
        \<lparr> state = Open, failures = [1000], successes = 0, lastFailureTime = Some 1000,
          totalRequests = 1, totalFailures = 1,
          config = \<lparr> enabled = True, failureThreshold = 1, failureWindow = 10,
                     resetTimeout = 100, successThreshold = 2 \<rparr> \<rparr>
        (\<lambda>w. (Inr (), Suc w)) (0::nat)) = Inl CircuitOpenError
   \<and> fst (snd (execute (\<lambda>w. 1050)
        \<lparr> state = Open, failures = [1000], successes = 0, lastFailureTime = Some 1000,
          totalRequests = 1, totalFailures = 1,
          config = \<lparr> enabled = True, failureThreshold = 1, failureWindow = 10,
                     resetTimeout = 100, successThreshold = 2 \<rparr> \<rparr>
        (\<lambda>w. (Inr (), Suc w)) (0::nat)))
     \<noteq> \<lparr> state = Open, failures = [1000], successes = 0, lastFailureTime = Some 1000,
          totalRequests = 2, totalFailures = 1,
          config = \<lparr> enabled = True, failureThreshold = 1, failureWindow = 10,
                     resetTimeout = 100, successThreshold = 2 \<rparr> \<rparr>"
  by (simp add: execute_def cleanOldFailures_def shouldAttemptReset_def Let_def)

text \<open>
  Claim C2, amended. An enabled breaker in the open state whose last failure time \<open>t\<close> is a
  non-zero timestamp: a call made while \<open>now - t < resetTimeout\<close> fails with
  \<open>CircuitOpenError\<close> and leaves the world as it was (the operation is not invoked); the
  request counter is incremented, the failure log is pruned to the entries newer than
  \<open>now - failureWindow\<close>, and nothing else changes. A call made once
  \<open>now - t \<ge> resetTimeout\<close> increments the counter, prunes the log, moves to half-open with
  the success counter at 0, and then runs the operation once on the world of the call:
  outcome and world are the operation's own.
\<close>

theorem open_breaker:
  assumes en: "enabled (config cb)" and st: "state cb = Open"
    and lft: "lastFailureTime cb = Some t" and nz: "t \<noteq> 0"
  shows "(clock w - t < resetTimeout (config cb) \<longrightarrow>
            execute clock cb operation w =
              (Inl CircuitOpenError,
               cb\<lparr> totalRequests := totalRequests cb + 1,
                   failures := filter (\<lambda>time. time > clock w - failureWindow (config cb)) (failures cb) \<rparr>,
               w))
       \<and> (clock w - t \<ge> resetTimeout (config cb) \<longrightarrow>
            execute clock cb operation w =
              tryOperation clock
                (cb\<lparr> totalRequests := totalRequests cb + 1,
                    failures := filter (\<lambda>time. time > clock w - failureWindow (config cb)) (failures cb),
                    state := HalfOpen, successes := 0 \<rparr>)
                operation w
            \<and> snd (snd (execute clock cb operation w)) = snd (operation w)
            \<and> fst (execute clock cb operation w) = fst (operation w))"
  using assms
  by (auto simp: execute_def cleanOldFailures_def shouldAttemptReset_def Let_def tryOperation_def
           split: prod.splits sum.splits)


theorem open_breaker_witness:
  "execute (\<lambda>w. 1500) \<lparr> state = Open, failures = [998, 999, 1000], successes = 0, lastFailureTime = Some 1000,
          totalRequests = 3, totalFailures = 3,
          config = \<lparr> enabled = True, failureThreshold = 3, failureWindow = 10000,
                     resetTimeout = 1000, successThreshold = 2 \<rparr> \<rparr> (\<lambda>w. (Inr (), Suc w)) (0::nat)
     = (Inl CircuitOpenError,
        \<lparr> state = Open, failures = [998, 999, 1000], successes = 0, lastFailureTime = Some 1000,
          totalRequests = 4, totalFailures = 3,
          config = \<lparr> enabled = True, failureThreshold = 3, failureWindow = 10000,
                     resetTimeout = 1000, successThreshold = 2 \<rparr> \<rparr>, 0)
   \<and> execute (\<lambda>w. 2100) \<lparr> state = Open, failures = [998, 999, 1000], successes = 0, lastFailureTime = Some 1000,
          totalRequests = 3, totalFailures = 3,
          config = \<lparr> enabled = True, failureThreshold = 3, failureWindow = 10000,
                     resetTimeout = 1000, successThreshold = 2 \<rparr> \<rparr> (\<lambda>w. (Inr (), Suc w)) (0::nat)
     = (Inr (),
        \<lparr> state = HalfOpen, failures = [998, 999, 1000], successes = 1, lastFailureTime = Some 1000,
          totalRequests = 4, totalFailures = 3,
          config = \<lparr> enabled = True, failureThreshold = 3, failureWindow = 10000,
                     resetTimeout = 1000, successThreshold = 2 \<rparr> \<rparr>, 1)"
  using open_breaker [where cb = "\<lparr> state = Open, failures = [998, 999, 1000], successes = 0, lastFailureTime = Some 1000,
          totalRequests = 3, totalFailures = 3,
          config = \<lparr> enabled = True, failureThreshold = 3, failureWindow = 10000,
                     resetTimeout = 1000, successThreshold = 2 \<rparr> \<rparr>" and t = 1000 and clock = "\<lambda>w. 1500" and w = "0::nat"
                        and operation = "(\<lambda>w. (Inr (), Suc w))"]
        open_breaker [where cb = "\<lparr> state = Open, failures = [998, 999, 1000], successes = 0, lastFailureTime = Some 1000,
          totalRequests = 3, totalFailures = 3,
          config = \<lparr> enabled = True, failureThreshold = 3, failureWindow = 10000,
                     resetTimeout = 1000, successThreshold = 2 \<rparr> \<rparr>" and t = 1000 and clock = "\<lambda>w. 2100" and w = "0::nat"
                        and operation = "(\<lambda>w. (Inr (), Suc w))"]
  by (simp add: tryOperation_def onSuccess_def)

section \<open>Properties of the retry middleware\<close>













text \<open>
  A \<open>maxRetries\<close> key present with the value \<open>undefined\<close> overrides the default: the loop
  does not run and the operation is never invoked.
\<close>

lemma withRetry_undefined_maxRetries:
  "maxRetriesOpt options = Undefined \<Longrightarrow>
   withRetry mathRandom timer operation options w
     = (Inl (PlainError ''Error'' ''Unknown error during retry''), [], w)"
  by (simp add: withRetry_def mergeRetryConfig_def Let_def)





section \<open>Properties of the backoff strategies\<close>

lemma applyJitter_bound:
  assumes r: "0 \<le> fst (mathRandom w)" "fst (mathRandom w) \<le> 1"
    and j: "0 \<le> j" "j \<le> 1" and M: "0 \<le> M" and d: "d \<le> M"
  shows "fst (applyJitter mathRandom d j w) \<le> M * (1 + j)"
proof -
  let ?r = "fst (mathRandom w)"
  have eq: "d + (?r * (d * j) * 2 - d * j) = d * (1 + j * (2 * ?r - 1))"
    by (simp add: algebra_simps)
  have f0: "0 \<le> 1 + j * (2 * ?r - 1)"
  proof -
    have "- 1 \<le> 2 * ?r - 1" using r by simp
    moreover have "2 * ?r - 1 \<le> 1" using r by simp
    ultimately have "\<bar>j * (2 * ?r - 1)\<bar> \<le> 1"
      using j by (simp add: abs_mult abs_le_iff mult_le_one)
    then show ?thesis by (simp add: abs_le_iff)
  qed
  have f1: "1 + j * (2 * ?r - 1) \<le> 1 + j"
  proof -
    have "j * (2 * ?r - 1) \<le> j * 1" using r j by (intro mult_left_mono) simp_all
    then show ?thesis by simp
  qed
  have "d * (1 + j * (2 * ?r - 1)) \<le> M * (1 + j)"
  proof (cases "0 \<le> d")
    case True
    have "d * (1 + j * (2 * ?r - 1)) \<le> d * (1 + j)" using True f1 by (intro mult_left_mono)
    also have "\<dots> \<le> M * (1 + j)" using d j by (intro mult_right_mono) simp_all
    finally show ?thesis .
  next
    case False
    then have "d * (1 + j * (2 * ?r - 1)) \<le> 0" using f0 by (simp add: mult_le_0_iff)
    also have "0 \<le> M * (1 + j)" using M j by simp
    finally show ?thesis .
  qed
  moreover have "0 \<le> M * (1 + j)" using M j by simp
  ultimately show ?thesis
    by (simp add: applyJitter_def Let_def eq)
qed

lemma floor_le_bound: "x \<le> (b::real) \<Longrightarrow> real_of_int \<lfloor>x\<rfloor> \<le> b"
  using of_int_floor_le[of x] by linarith

text \<open>
  Claim C6, as stated, bounds the delay by \<open>maxDelayMs\<close> also under jitter. Every strategy
  caps the delay first and applies the jitter afterwards: attempt 10 with
  \<open>initialDelayMs = 100\<close>, \<open>multiplier = 2\<close>, \<open>maxDelayMs = 500\<close>, the default jitter factor
  0.25 and the draw 0.75 (a factor of 1.125) gives 562 ms.
\<close>

theorem backoff_cap_counterexample:
  "(1::int) \<le> 10
   \<and> fst (exponentialBackoff (\<lambda>w. (3/4, w)) 10
        \<lparr> strategy = None, boInitialDelayMs = Some 100, boMaxDelayMs = Some 500,
          boMultiplier = Some 2, boJitter = Some True, jitterFactor = None \<rparr> ()) = 562
   \<and> \<not> real_of_int (fst (exponentialBackoff (\<lambda>w. (3/4, w)) 10
        \<lparr> strategy = None, boInitialDelayMs = Some 100, boMaxDelayMs = Some 500,
          boMultiplier = Some 2, boJitter = Some True, jitterFactor = None \<rparr> ())) \<le> 500"
  by code_simp

text \<open>
  Claim C6, amended. For every attempt number and every configuration whose strategy is
  exponential (the default), linear or fibonacci: with jitter disabled the delay computed
  by \<open>calculateDelay\<close> never exceeds \<open>maxDelayMs\<close>; with jitter enabled, a jitter factor \<open>j\<close>
  in \<open>[0, 1]\<close>, \<open>maxDelayMs \<ge> 0\<close> and a draw in \<open>[0, 1]\<close>, it never exceeds
  \<open>maxDelayMs * (1 + j)\<close>. The constant strategy has no cap.
\<close>

theorem backoff_cap:
  assumes capped: "orDefault (strategy options) Exponential \<noteq> Constant"
  shows "(\<not> orDefault (boJitter options) (jitter DEFAULT_RETRY_CONFIG) \<longrightarrow>
            real_of_int (fst (calculateDelay mathRandom n options w))
              \<le> orDefault (boMaxDelayMs options) (maxDelayMs DEFAULT_RETRY_CONFIG))
       \<and> (orDefault (boJitter options) (jitter DEFAULT_RETRY_CONFIG)
            \<and> 0 \<le> orDefault (jitterFactor options) 0.25 \<and> orDefault (jitterFactor options) 0.25 \<le> 1
            \<and> 0 \<le> orDefault (boMaxDelayMs options) (maxDelayMs DEFAULT_RETRY_CONFIG)
            \<and> 0 \<le> fst (mathRandom w) \<and> fst (mathRandom w) \<le> 1 \<longrightarrow>
            real_of_int (fst (calculateDelay mathRandom n options w))
              \<le> orDefault (boMaxDelayMs options) (maxDelayMs DEFAULT_RETRY_CONFIG)
                  * (1 + orDefault (jitterFactor options) 0.25))"
proof (intro conjI impI)
  let ?M = "orDefault (boMaxDelayMs options) (maxDelayMs DEFAULT_RETRY_CONFIG)"
  let ?j = "orDefault (jitterFactor options) 0.25"
  assume nj: "\<not> orDefault (boJitter options) (jitter DEFAULT_RETRY_CONFIG)"
  show "real_of_int (fst (calculateDelay mathRandom n options w)) \<le> ?M"
  proof (cases "orDefault (strategy options) Exponential")
    case Exponential
    then show ?thesis using nj
      by (simp add: calculateDelay_def exponentialBackoff_def Let_def floor_le_bound)
  next
    case Linear
    then show ?thesis using nj
      by (simp add: calculateDelay_def linearBackoff_def Let_def floor_le_bound)
  next
    case Constant
    then show ?thesis using capped by simp
  next
    case Fibonacci
    then show ?thesis using nj
      by (simp add: calculateDelay_def fibonacciBackoff_def Let_def floor_le_bound)
  qed
next
  let ?M = "orDefault (boMaxDelayMs options) (maxDelayMs DEFAULT_RETRY_CONFIG)"
  let ?j = "orDefault (jitterFactor options) 0.25"
  assume a: "orDefault (boJitter options) (jitter DEFAULT_RETRY_CONFIG)
            \<and> 0 \<le> ?j \<and> ?j \<le> 1 \<and> 0 \<le> ?M \<and> 0 \<le> fst (mathRandom w) \<and> fst (mathRandom w) \<le> 1"
  have b: "\<And>d. d \<le> ?M \<Longrightarrow> real_of_int \<lfloor>fst (applyJitter mathRandom d ?j w)\<rfloor> \<le> ?M * (1 + ?j)"
    using a applyJitter_bound[where mathRandom=mathRandom and w=w and j="?j" and M="?M"]
    by (intro floor_le_bound) auto
  show "real_of_int (fst (calculateDelay mathRandom n options w)) \<le> ?M * (1 + ?j)"
  proof (cases "orDefault (strategy options) Exponential")
    case Exponential
    then show ?thesis using a b
      by (simp add: calculateDelay_def exponentialBackoff_def Let_def)
  next
    case Linear
    then show ?thesis using a b
      by (simp add: calculateDelay_def linearBackoff_def Let_def)
  next
    case Constant
    then show ?thesis using capped by simp
  next
    case Fibonacci
    then show ?thesis using a b
      by (simp add: calculateDelay_def fibonacciBackoff_def Let_def)
  qed
qed

theorem backoff_cap_witness:
  "fst (calculateDelay (\<lambda>w. (3/4, w)) 100
        \<lparr> strategy = None, boInitialDelayMs = Some 100, boMaxDelayMs = Some 10000,
          boMultiplier = Some 2, boJitter = Some False, jitterFactor = None \<rparr> ()) = 10000
   \<and> fst (calculateDelay (\<lambda>w. (3/4, w)) 10
        \<lparr> strategy = Some Exponential, boInitialDelayMs = Some 100, boMaxDelayMs = Some 500,
          boMultiplier = Some 2, boJitter = Some True, jitterFactor = None \<rparr> ()) = 562
   \<and> real_of_int 562 \<le> 500 * (1 + 0.25)"
proof -
  have e1: "fst (calculateDelay (\<lambda>w. (3/4, w)) 100
        \<lparr> strategy = None, boInitialDelayMs = Some 100, boMaxDelayMs = Some 10000,
          boMultiplier = Some 2, boJitter = Some False, jitterFactor = None \<rparr> ()) = 10000"
    by code_simp
  have e2: "fst (calculateDelay (\<lambda>w. (3/4, w)) 10
        \<lparr> strategy = Some Exponential, boInitialDelayMs = Some 100, boMaxDelayMs = Some 500,
          boMultiplier = Some 2, boJitter = Some True, jitterFactor = None \<rparr> ()) = 562"
    by code_simp
  show ?thesis
    using e1 e2
      backoff_cap [where options = "\<lparr> strategy = None, boInitialDelayMs = Some 100,
          boMaxDelayMs = Some 10000, boMultiplier = Some 2, boJitter = Some False,
          jitterFactor = None \<rparr>" and mathRandom = "\<lambda>w. (3/4, w)" and n = 100 and w = "()"]
      backoff_cap [where options = "\<lparr> strategy = Some Exponential, boInitialDelayMs = Some 100,
          boMaxDelayMs = Some 500, boMultiplier = Some 2, boJitter = Some True,
          jitterFactor = None \<rparr>" and mathRandom = "\<lambda>w. (3/4, w)" and n = 10 and w = "()"]
    by (simp add: orDefault_def)
qed

section \<open>Publishing and the resilience wrapper\<close>

text \<open>
  Claim C4 (publish is routed through \<open>circuit_breaker.execute(retry.execute(send))\<close>)
  fails on the code. Every adapter builds a circuit breaker and a retry configuration from
  its configuration and inherits \<open>executeWithResilience\<close>, and no \<open>publish\<close> calls it. For
  the in-memory producer with an enabled breaker, the publish routed through the wrapper
  counts a request on the breaker and \<open>publish\<close> does not. For the Pub/Sub producer with
  a backend that times out once and then accepts, \<open>publish\<close> fails with a \<open>PublishError\<close>
  after one call of \<open>topic.publishMessage\<close>, where the same send under
  \<open>executeWithResilience\<close> is retried and succeeds at the second call.
\<close>

theorem publish_skips_resilience:
  "fst (snd (publish 1000 ''id-1'' ''x'' None
        \<lparr> circuitBreaker = newCircuitBreaker (DEFAULT_CIRCUIT_BREAKER_CONFIG\<lparr> enabled := True \<rparr>),
          retryConfig = \<lparr> rcMaxRetries = Some 3, rcInitialDelayMs = Some 100, rcMaxDelayMs = Some 10000,
                          rcMultiplier = Some 2, rcJitter = Some False, rcRetryableErrors = None \<rparr>,
          isConnected = True, producerQueue = Some 0, producerQueueName = ''q'' \<rparr>
        (\<lambda>x. newMemoryQueue ''q'' None None)))
     \<noteq> fst (snd (publish_routed_through_resilience 1000 ''id-1'' ''x'' None
        \<lparr> circuitBreaker = newCircuitBreaker (DEFAULT_CIRCUIT_BREAKER_CONFIG\<lparr> enabled := True \<rparr>),
          retryConfig = \<lparr> rcMaxRetries = Some 3, rcInitialDelayMs = Some 100, rcMaxDelayMs = Some 10000,
                          rcMultiplier = Some 2, rcJitter = Some False, rcRetryableErrors = None \<rparr>,
          isConnected = True, producerQueue = Some 0, producerQueueName = ''q'' \<rparr>
        (\<lambda>x. newMemoryQueue ''q'' None None)))
   \<and> pubsubPublish Inr (\<lambda>w. (''uuid-1'', w))
        (\<lambda>msg n. (if n = 0 then Inl (PlainError ''Error'' ''ETIMEDOUT'') else Inr ''srv-1'', Suc n))
        ''x'' None
        \<lparr> circuitBreaker = newCircuitBreaker DEFAULT_CIRCUIT_BREAKER_CONFIG,
          retryConfig = \<lparr> rcMaxRetries = Some 3, rcInitialDelayMs = Some 100, rcMaxDelayMs = Some 10000,
                          rcMultiplier = Some 2, rcJitter = Some False, rcRetryableErrors = None \<rparr>,
          isConnected = True, hasTopic = True \<rparr> (0::nat)
     = (Inl (PublishError ''Failed to publish message''),
        \<lparr> circuitBreaker = newCircuitBreaker DEFAULT_CIRCUIT_BREAKER_CONFIG,
          retryConfig = \<lparr> rcMaxRetries = Some 3, rcInitialDelayMs = Some 100, rcMaxDelayMs = Some 10000,
                          rcMultiplier = Some 2, rcJitter = Some False, rcRetryableErrors = None \<rparr>,
          isConnected = True, hasTopic = True \<rparr>, 1)
   \<and> executeWithResilience (\<lambda>w. 0) (\<lambda>w. (1/2, w)) (\<lambda>ms w. w) (\<lambda>name info w. w)
        \<lparr> circuitBreaker = newCircuitBreaker DEFAULT_CIRCUIT_BREAKER_CONFIG,
          retryConfig = \<lparr> rcMaxRetries = Some 3, rcInitialDelayMs = Some 100, rcMaxDelayMs = Some 10000,
                          rcMultiplier = Some 2, rcJitter = Some False, rcRetryableErrors = None \<rparr>,
          isConnected = True, hasTopic = True \<rparr>
        (\<lambda>n. (if n = 0 then Inl (PlainError ''Error'' ''ETIMEDOUT'') else Inr ''srv-1'', Suc n))
        ''publish'' (0::nat)
     = (Inr ''srv-1'', newCircuitBreaker DEFAULT_CIRCUIT_BREAKER_CONFIG, 2)"
  by code_simp

section \<open>Properties of the JSON serializer\<close>

text \<open>
  Claim C8 (a timestamp is encoded as \<open>{"__type": "date", "value": ...}\<close>) fails on the
  code. \<open>JSON.stringify\<close> applies \<open>Date.prototype.toJSON\<close> before it calls the replacer,
  so \<open>defaultReplacer\<close> sees the ISO string and never a \<open>Date\<close>: its \<open>Date\<close> branch is
  dead, and the timestamp is printed as a bare string. The big-integer branch of the same
  replacer does produce the tagged object. Here on a payload with a timestamp and a big
  integer, under the default options.
\<close>

theorem date_encoding_divergence:
  "serialize \<lparr> rtToISOString = (\<lambda>ms. ''1970-01-01T00:00:00.000Z''), rtNewDate = (\<lambda>v. Some 0),
               rtToBigInt = (\<lambda>v. Inr 0), rtStackLimit = 1000 \<rparr>
      \<lparr> pretty = None, replacer = None, reviver = None, handleBigInt = None, handleDates = None \<rparr>
      (JObject [(''createdAt'', JDate (Some 0)), (''total'', JBigInt 123)])
     = Inr (Some (JsonObject
         [(''createdAt'', JsonString ''1970-01-01T00:00:00.000Z''),
          (''total'', JsonObject [(''__type'', JsonString ''bigint''), (''value'', JsonString ''123'')])]))
   \<and> serialize \<lparr> rtToISOString = (\<lambda>ms. ''1970-01-01T00:00:00.000Z''), rtNewDate = (\<lambda>v. Some 0),
               rtToBigInt = (\<lambda>v. Inr 0), rtStackLimit = 1000 \<rparr>
      \<lparr> pretty = None, replacer = None, reviver = None, handleBigInt = None, handleDates = None \<rparr>
      (JObject [(''createdAt'', JDate (Some 0)), (''total'', JBigInt 123)])
     \<noteq> Inr (Some (JsonObject
         [(''createdAt'', JsonObject [(''__type'', JsonString ''date''),
                                     (''value'', JsonString ''1970-01-01T00:00:00.000Z'')]),
          (''total'', JsonObject [(''__type'', JsonString ''bigint''), (''value'', JsonString ''123'')])]))"
  by code_simp






end
